theory Spec2Isabelle
  imports Main
begin

section \<open>JavaScript values\<close>

text \<open>
  The component \<open>Summary\<close> (webportal, job-detail/components/summary.jsx) receives
  \<open>jobInfo\<close> as parsed JSON. A value is one of the JSON kinds, or \<open>undefined\<close>, which is what
  reading a missing property gives. Numbers are the integers of the job status record
  (exit codes, task indices, retry counts). An object is its list of own properties.
\<close>

datatype jsval =
    Undefined
  | Null
  | JBool bool
  | JNum int
  | JStr string
  | JArr "jsval list"
  | JObj "(string \<times> jsval) list"

datatype exn = TypeError

text \<open>Truthiness, as tested by \<open>if (v)\<close>, \<open>!v\<close> and \<open>a && b\<close>.\<close>

fun truthy :: "jsval \<Rightarrow> bool" where
  "truthy Undefined = False"
| "truthy Null = False"
| "truthy (JBool b) = b"
| "truthy (JNum n) = (n \<noteq> 0)"
| "truthy (JStr s) = (s \<noteq> [])"
| "truthy (JArr xs) = True"
| "truthy (JObj kvs) = True"

text \<open>lodash \<open>isNil\<close>: the value is \<open>null\<close> or \<open>undefined\<close>.\<close>

fun isNil :: "jsval \<Rightarrow> bool" where
  "isNil Undefined = True"
| "isNil Null = True"
| "isNil v = False"

text \<open>lodash \<open>isEmpty\<close> on an array.\<close>

definition isEmpty :: "'a list \<Rightarrow> bool" where
  "isEmpty xs = (xs = [])"

text \<open>
  \<open>getProp v k\<close> is \<open>v.k\<close> for a value that is neither \<open>null\<close> nor \<open>undefined\<close>. A missing
  property reads as \<open>undefined\<close>. The property names read in this component are not
  built-in properties of strings, arrays, numbers or booleans, so on those the result is
  \<open>undefined\<close> as well.
\<close>

fun lookup :: "(string \<times> jsval) list \<Rightarrow> string \<Rightarrow> jsval" where
  "lookup [] k = Undefined"
| "lookup ((k', v) # kvs) k = (if k' = k then v else lookup kvs k)"

fun getProp :: "jsval \<Rightarrow> string \<Rightarrow> jsval" where
  "getProp (JObj kvs) k = lookup kvs k"
| "getProp v k = Undefined"

text \<open>\<open>member v k\<close> is the expression \<open>v.k\<close>: reading a property of \<open>null\<close> or
  \<open>undefined\<close> throws a TypeError.\<close>

definition member :: "jsval \<Rightarrow> string \<Rightarrow> exn + jsval" where
  "member v k = (if isNil v then Inl TypeError else Inr (getProp v k))"

text \<open>
  \<open>atPath v keys\<close> is the loop of lodash's \<open>baseGet\<close>: it reads the keys one after the other
  while the current value is neither \<open>null\<close> nor \<open>undefined\<close>, and gives \<open>undefined\<close> when it
  cannot reach the end.
\<close>

fun atPath :: "jsval \<Rightarrow> string list \<Rightarrow> jsval" where
  "atPath v [] = v"
| "atPath v (k # ks) = (if isNil v then Undefined else atPath (getProp v k) ks)"

text \<open>
  lodash \<open>get(object, path)\<close> with a string as path. \<open>castPath\<close> first asks \<open>isKey\<close>: a
  string without a dot is one key, and so is a string that is itself a property of the
  object (\<open>path in Object(object)\<close>); any other string is split by \<open>stringToPath\<close>. The
  paths of this component are names joined by dots (no brackets, no quotes), for which
  \<open>stringToPath\<close> is the split at the dots. Strings, arrays, numbers and booleans have no
  property with a dot in its name, so only an object can have the path as a key.
\<close>

fun stringToPath :: "string \<Rightarrow> string list" where
  "stringToPath [] = [[]]"
| "stringToPath (c # cs) =
     (if c = CHR ''.'' then [] # stringToPath cs
      else (case stringToPath cs of [] \<Rightarrow> [[c]] | k # ks \<Rightarrow> (c # k) # ks))"

fun hasKey :: "jsval \<Rightarrow> string \<Rightarrow> bool" where
  "hasKey (JObj kvs) k = (k \<in> set (map fst kvs))"
| "hasKey v k = False"

definition isKey :: "string \<Rightarrow> jsval \<Rightarrow> bool" where
  "isKey path object = (CHR ''.'' \<notin> set path \<or> hasKey object path)"

definition castPath :: "string \<Rightarrow> jsval \<Rightarrow> string list" where
  "castPath path object = (if isKey path object then [path] else stringToPath path)"

definition baseGet :: "jsval \<Rightarrow> string \<Rightarrow> jsval" where
  "baseGet object path =
     (let keys = castPath path object
      in if keys = [] then Undefined else atPath object keys)"

definition get :: "jsval \<Rightarrow> string \<Rightarrow> jsval" where
  "get object path = (if isNil object then Undefined else baseGet object path)"

text \<open>
  The comparisons \<open>v > n\<close> and \<open>v >= n\<close> against a number literal convert \<open>v\<close> with
  ToNumber; \<open>None\<close> stands for NaN, which makes every comparison false. The conversion
  of strings, arrays and objects is the language's own and is taken as the parameter
  \<open>coerce\<close>.
\<close>

fun toNumber :: "(jsval \<Rightarrow> int option) \<Rightarrow> jsval \<Rightarrow> int option" where
  "toNumber coerce Undefined = None"
| "toNumber coerce Null = Some 0"
| "toNumber coerce (JBool b) = Some (if b then 1 else 0)"
| "toNumber coerce (JNum n) = Some n"
| "toNumber coerce v = coerce v"

definition js_gt :: "(jsval \<Rightarrow> int option) \<Rightarrow> jsval \<Rightarrow> int \<Rightarrow> bool" where
  "js_gt coerce v n = (case toNumber coerce v of None \<Rightarrow> False | Some m \<Rightarrow> m > n)"

definition js_ge :: "(jsval \<Rightarrow> int option) \<Rightarrow> jsval \<Rightarrow> int \<Rightarrow> bool" where
  "js_ge coerce v n = (case toNumber coerce v of None \<Rightarrow> False | Some m \<Rightarrow> m \<ge> n)"

text \<open>Decimal digits of an array index, for the template literal \<open>`spec-reason-${i}`\<close>.\<close>

fun toString_nat :: "nat \<Rightarrow> string" where
  "toString_nat n =
     (if n < 10 then [''0123456789'' ! n]
      else toString_nat (n div 10) @ [''0123456789'' ! (n mod 10)])"

declare toString_nat.simps [simp del]

section \<open>Rendered elements\<close>

text \<open>The two bound methods that the hints pass on as click handlers.\<close>

datatype handler = showExitDiagnostics | showJobConfig

datatype messageBarType = MessageBarType_error | MessageBarType_info | MessageBarType_warning

text \<open>
  What the JSX builds: \<open>Expr v\<close> is a child \<open>{v}\<close>, \<open>Text\<close> literal text,
  \<open>Div key className children\<close>, \<open>Link onClick children\<close>,
  \<open>HintItem key header children\<close> and \<open>MessageBar messageBarType children\<close>.
  A class name is the name of the class in the tachyons stylesheet (\<open>t.h1\<close> is \<open>''h1''\<close>);
  an array given as a child is the list of the children.
\<close>

datatype element =
    Expr jsval
  | Text string
  | Div "string option" "string option" "element list"
  | Link handler "element list"
  | HintItem string string "element list"
  | MessageBar messageBarType "element list"

section \<open>The component\<close>

record summary_props =
  prop_className :: jsval
  prop_jobInfo :: jsval
  prop_jobConfig :: jsval
  prop_reloading :: bool

record summary_state =
  monacoProps :: jsval
  modalTitle :: string
  autoReloadInterval :: int

record summary =
  this_props :: summary_props
  this_state :: summary_state

definition StoppableStatus :: "jsval list" where
  "StoppableStatus = [JStr ''Running'', JStr ''Waiting'']"

text \<open>\<open>Array.prototype.includes\<close> on an array of strings.\<close>

definition js_includes :: "jsval list \<Rightarrow> jsval \<Rightarrow> bool" where
  "js_includes xs v = (v \<in> set xs)"

text \<open>
  \<open>spec.solution.map((x, i) => ...)\<close>: only an array has \<open>map\<close>; on any other value
  that passed the truthiness test the call throws a TypeError.
\<close>

definition callMap :: "jsval \<Rightarrow> (jsval \<Rightarrow> nat \<Rightarrow> element) \<Rightarrow> exn + element list" where
  "callMap v f =
     (case v of
        JArr xs \<Rightarrow> Inr (map (\<lambda>(i, x). f x i) (enumerate 0 xs))
      | _ \<Rightarrow> Inl TypeError)"

text \<open>Sequencing of expressions that may throw: the first exception ends the method.\<close>

definition andThen :: "exn + 'a \<Rightarrow> ('a \<Rightarrow> exn + 'b) \<Rightarrow> exn + 'b" where
  "andThen m f = (case m of Inl e \<Rightarrow> Inl e | Inr x \<Rightarrow> f x)"

definition getUserFailureHintItems ::
  "(jsval \<Rightarrow> int option) \<Rightarrow> jsval \<Rightarrow> exn + element list" where
  "getUserFailureHintItems coerce jobInfo =
    (let runtimeOutput = get jobInfo ''jobStatus.appExitMessages.runtime'';
         spec = get jobInfo ''jobStatus.appExitSpec'';
         reason1 =
           (if truthy spec \<and> truthy (getProp spec ''reason'')
            then [Div (Some ''spec-reason'') None [Expr (getProp spec ''reason'')]] else [])
     in andThen (member jobInfo ''jobStatus'') (\<lambda>jobStatus.
        andThen (member jobStatus ''appExitCode'') (\<lambda>code.
       (let reason = reason1 @
              (if js_gt coerce code 0
               then (if truthy runtimeOutput \<and> truthy (getProp runtimeOutput ''reason'')
                     then [Div (Some ''runtime-reason'') None
                             [Expr (getProp runtimeOutput ''reason'')]]
                     else [])
               else (let launcherOutput =
                           get jobInfo ''jobStatus.appExitMessages.launcher''
                     in if truthy launcherOutput
                        then [Div (Some ''launcher-reason'') None [Expr launcherOutput]]
                        else []));
            result1 =
              (if \<not> isEmpty reason then [HintItem ''reason'' ''Exit Reason:'' reason] else []);
            solution1 =
              (if truthy runtimeOutput \<and> truthy (getProp runtimeOutput ''solution'')
               then [Div (Some ''runtime-solution'') None
                       [Expr (getProp runtimeOutput ''solution'')]]
               else [])
        in andThen
             (if truthy spec \<and> truthy (getProp spec ''solution'')
              then callMap (getProp spec ''solution'')
                     (\<lambda>x i. Div (Some (''spec-reason-'' @ toString_nat i)) None [Expr x])
              else Inr [])
             (\<lambda>solution2.
          (let solution = solution1 @ solution2;
               result2 =
                 (if \<not> isEmpty solution
                  then [HintItem ''solution'' ''Exit Solutions:'' solution] else []);
               result3 = [Div None (Some ''h1'') []];
               message = get jobInfo ''jobStatus.appExitTriggerMessage'';
               role = get jobInfo ''jobStatus.appExitTriggerTaskRoleName'';
               idx = get jobInfo ''jobStatus.appExitTriggerTaskIndex'';
               result4 =
                 (if truthy message
                  then [HintItem ''trigger-message'' ''Exit Trigger Message:'' [Expr message]]
                  else []);
               result5 =
                 (if truthy role
                  then [HintItem ''task-role'' ''Exit Trigger Task Role:'' [Expr role]]
                  else []);
               result6 =
                 (if \<not> isNil idx
                  then [HintItem ''container-id'' ''Exit Trigger Task Index:'' [Expr idx]]
                  else []);
               result7 =
                 (if truthy runtimeOutput
                  then (let userCode = getProp runtimeOutput ''originalUserExitCode''
                        in if \<not> isNil userCode
                           then [HintItem ''user-exit-code'' ''Original User Exit Code:''
                                   [Expr userCode]]
                           else [])
                  else [])
           in Inr (result1 @ result2 @ result3 @ result4 @ result5 @ result6 @ result7)))))))"

text \<open>
  \<open>renderHintMessage\<close>. \<open>getHumanizedJobStateString\<close> is imported from \<open>../util\<close> and is
  taken as a parameter. \<open>None\<close> is the method returning \<open>undefined\<close>: nothing is rendered.
\<close>

definition renderHintMessage ::
  "(jsval \<Rightarrow> jsval) \<Rightarrow> (jsval \<Rightarrow> int option) \<Rightarrow> summary \<Rightarrow> exn + element option" where
  "renderHintMessage getHumanizedJobStateString coerce this =
    (let jobInfo = prop_jobInfo (this_props this)
     in if \<not> truthy jobInfo then Inr None
        else
          (let state = getHumanizedJobStateString jobInfo
           in if state = JStr ''Failed'' \<or> state = JStr ''Stopped'' then
                andThen (member jobInfo ''jobStatus'') (\<lambda>jobStatus.
                andThen (member jobStatus ''appExitSpec'') (\<lambda>spec.
                  (let type = (if truthy spec then getProp spec ''type'' else spec)
                   in andThen (member jobStatus ''appExitCode'') (\<lambda>code.
                     (let result1 =
                            [HintItem ''platform-exit-code'' ''Exit Code:'' [Expr code]];
                          result2 =
                            (if truthy type
                             then [HintItem ''type'' ''Exit Type:'' [Expr type]] else [])
                      in andThen
                           (if type = JStr ''USER_FAILURE''
                            then getUserFailureHintItems coerce jobInfo
                            else Inr [HintItem ''solution'' ''Exit Solutions:''
                                    [Text ''Please send the '',
                                     Link showExitDiagnostics [Text ''exit diagnostics''],
                                     Text '' to your administrator for further investigation.'']])
                           (\<lambda>result3.
                             (let messageBarType =
                                    (if state = JStr ''Failed'' then MessageBarType_error
                                     else MessageBarType_info)
                              in Inr (Some (MessageBar messageBarType
                                        [Div None None (result1 @ result2 @ result3)])))))))))
              else if state = JStr ''Waiting'' then
                (let resourceRetries = get jobInfo ''jobStatus.retryDetails.resource''
                 in if js_ge coerce resourceRetries 3
                    then Inr (Some (MessageBar MessageBarType_warning
                                      [Div None None
                                         [HintItem ''conflict-retry-count'' ''Conflict Count:''
                                            [Expr resourceRetries],
                                          HintItem ''resolution'' ''Resolution:''
                                            [Div None None
                                               [Text ''Please adjust the resource requirement in your '',
                                                Link showJobConfig [Text ''job config''],
                                                Text
                                                  '', or wait till other jobs release more resources back to the system.'']]]]))
                    else Inr None)
              else Inr None))"

text \<open>The \<open>disabled\<close> property of the Stop button in \<open>render\<close>.\<close>

definition stopDisabled :: "(jsval \<Rightarrow> jsval) \<Rightarrow> summary \<Rightarrow> bool" where
  "stopDisabled getHumanizedJobStateString this =
     (\<not> js_includes StoppableStatus (getHumanizedJobStateString (prop_jobInfo (this_props this))))"

section \<open>Reading the result\<close>

text \<open>
  The hints of a message bar are the children of its inner \<open>div\<close>; a hint is told by its
  header, the parts of one hint by their keys and by the values they show.
\<close>

fun hints :: "element \<Rightarrow> element list" where
  "hints (MessageBar t [Div k c items]) = items"
| "hints e = []"

fun header :: "element \<Rightarrow> string option" where
  "header (HintItem k h children) = Some h"
| "header e = None"

fun keyOf :: "element \<Rightarrow> string option" where
  "keyOf (Div k c children) = k"
| "keyOf (HintItem k h children) = Some k"
| "keyOf e = None"

fun content :: "element \<Rightarrow> jsval list" where
  "content (Div k c [Expr v]) = [v]"
| "content (HintItem k h [Expr v]) = [v]"
| "content e = []"

definition hintsWithHeader :: "string \<Rightarrow> element list \<Rightarrow> element list" where
  "hintsWithHeader h items = filter (\<lambda>e. header e = Some h) items"

text \<open>
  The data model types \<open>appExitSpec.solution\<close> as a sequence of strings: when it is there
  (truthy), it is an array.
\<close>

definition solutionWellFormed :: "jsval \<Rightarrow> bool" where
  "solutionWellFormed jobStatus =
     (case atPath jobStatus [''appExitSpec'', ''solution''] of
        JArr xs \<Rightarrow> True
      | v \<Rightarrow> \<not> truthy v)"

text \<open>
  The strings that this component gives to \<open>get\<close> as paths. In the data model \<open>jobInfo\<close>
  holds the job status under \<open>jobStatus\<close>, and none of these strings is the name of a
  property of \<open>jobInfo\<close> itself; then \<open>get\<close> reads the nested field.
\<close>

definition summaryPaths :: "string list" where
  "summaryPaths =
     [''jobStatus.appExitMessages.runtime'',
      ''jobStatus.appExitSpec'',
      ''jobStatus.appExitMessages.launcher'',
      ''jobStatus.appExitTriggerMessage'',
      ''jobStatus.appExitTriggerTaskRoleName'',
      ''jobStatus.appExitTriggerTaskIndex'',
      ''jobStatus.retryDetails.resource'']"

definition noPathKey :: "jsval \<Rightarrow> bool" where
  "noPathKey jobInfo = list_all (\<lambda>path. \<not> hasKey jobInfo path) summaryPaths"

section \<open>The hints of a user failure, part by part\<close>

text \<open>
  The parts of the "Exit Reason" hint as the specification lists them: the static reason of the
  exit spec, then the runtime's reason when the exit code is positive, or else the launcher's
  message. A part is collected when it is truthy.
\<close>

definition exitReasonParts :: "(jsval \<Rightarrow> int option) \<Rightarrow> jsval \<Rightarrow> element list" where
  "exitReasonParts coerce jobStatus =
     (let specReason = atPath jobStatus [''appExitSpec'', ''reason''];
          runtimeReason = atPath jobStatus [''appExitMessages'', ''runtime'', ''reason''];
          launcher = atPath jobStatus [''appExitMessages'', ''launcher'']
      in (if truthy specReason then [Div (Some ''spec-reason'') None [Expr specReason]] else []) @
         (if js_gt coerce (getProp jobStatus ''appExitCode'') 0
          then (if truthy runtimeReason
                then [Div (Some ''runtime-reason'') None [Expr runtimeReason]] else [])
          else (if truthy launcher
                then [Div (Some ''launcher-reason'') None [Expr launcher]] else [])))"

text \<open>
  The parts of the "Exit Solutions" hint: the runtime's solution when it is truthy, then
  every entry of the exit spec's solutions, in their order.
\<close>

definition exitSolutionParts :: "jsval \<Rightarrow> element list" where
  "exitSolutionParts jobStatus =
     (let runtimeSolution = atPath jobStatus [''appExitMessages'', ''runtime'', ''solution''];
          specSolution = atPath jobStatus [''appExitSpec'', ''solution'']
      in (if truthy runtimeSolution
          then [Div (Some ''runtime-solution'') None [Expr runtimeSolution]] else []) @
         (case specSolution of
            JArr xs \<Rightarrow>
              map (\<lambda>(i, x). Div (Some (''spec-reason-'' @ toString_nat i)) None [Expr x])
                (enumerate 0 xs)
          | _ \<Rightarrow> []))"

text \<open>
  The trigger hints: message and task role when truthy, the task index when it is neither
  \<open>null\<close> nor \<open>undefined\<close>.
\<close>

definition triggerHints :: "jsval \<Rightarrow> element list" where
  "triggerHints jobStatus =
     (let message = getProp jobStatus ''appExitTriggerMessage'';
          role = getProp jobStatus ''appExitTriggerTaskRoleName'';
          idx = getProp jobStatus ''appExitTriggerTaskIndex''
      in (if truthy message
          then [HintItem ''trigger-message'' ''Exit Trigger Message:'' [Expr message]] else []) @
         (if truthy role
          then [HintItem ''task-role'' ''Exit Trigger Task Role:'' [Expr role]] else []) @
         (if isNil idx then []
          else [HintItem ''container-id'' ''Exit Trigger Task Index:'' [Expr idx]]))"

definition userExitCodeHint :: "jsval \<Rightarrow> element list" where
  "userExitCodeHint jobStatus =
     (let userCode = atPath jobStatus [''appExitMessages'', ''runtime'', ''originalUserExitCode'']
      in if isNil userCode then []
         else [HintItem ''user-exit-code'' ''Original User Exit Code:'' [Expr userCode]])"

definition userFailureHints :: "(jsval \<Rightarrow> int option) \<Rightarrow> jsval \<Rightarrow> element list" where
  "userFailureHints coerce jobStatus =
     (if exitReasonParts coerce jobStatus = [] then []
      else [HintItem ''reason'' ''Exit Reason:'' (exitReasonParts coerce jobStatus)]) @
     (if exitSolutionParts jobStatus = [] then []
      else [HintItem ''solution'' ''Exit Solutions:'' (exitSolutionParts jobStatus)]) @
     [Div None (Some ''h1'') []] @
     triggerHints jobStatus @
     userExitCodeHint jobStatus"


section \<open>Components and jobs used as examples\<close>

text \<open>The state is the one the constructor sets.\<close>

definition initialState :: summary_state where
  "initialState = \<lparr>monacoProps = Null, modalTitle = [], autoReloadInterval = 10 * 1000\<rparr>"

definition summaryOf :: "jsval \<Rightarrow> summary" where
  "summaryOf jobInfo =
     \<lparr>this_props = \<lparr>prop_className = Undefined, prop_jobInfo = jobInfo,
                     prop_jobConfig = Undefined, prop_reloading = False\<rparr>,
      this_state = initialState\<rparr>"

definition job_running :: jsval where
  "job_running = JObj [(''jobStatus'', JObj [(''state'', JStr ''RUNNING'')])]"

definition job_empty_reason :: jsval where
  "job_empty_reason =
     JObj [(''jobStatus'',
        JObj [(''appExitCode'', JNum 1),
              (''appExitSpec'', JObj [(''type'', JStr ''USER_FAILURE''), (''reason'', JStr [])])])]"

definition job_launcher :: jsval where
  "job_launcher =
     JObj [(''jobStatus'',
        JObj [(''appExitCode'', JNum 0),
              (''appExitSpec'', JObj [(''type'', JStr ''USER_FAILURE''), (''reason'', JStr ''R1'')]),
              (''appExitMessages'',
                 JObj [(''runtime'', JObj [(''reason'', JStr ''R2'')]),
                       (''launcher'', JStr ''L1'')])])]"

definition job_empty_runtime_solution :: jsval where
  "job_empty_runtime_solution =
     JObj [(''jobStatus'',
        JObj [(''appExitCode'', JNum 1),
              (''appExitSpec'', JObj [(''type'', JStr ''USER_FAILURE'')]),
              (''appExitMessages'', JObj [(''runtime'', JObj [(''solution'', JStr [])])])])]"

definition job_solutions :: jsval where
  "job_solutions =
     JObj [(''jobStatus'',
        JObj [(''appExitCode'', JNum 1),
              (''appExitSpec'',
                 JObj [(''type'', JStr ''USER_FAILURE''),
                       (''solution'', JArr [JStr ''S2'', JStr ''S3''])]),
              (''appExitMessages'', JObj [(''runtime'', JObj [(''solution'', JStr ''S1'')])])])]"

definition job_empty_type :: jsval where
  "job_empty_type =
     JObj [(''jobStatus'',
        JObj [(''appExitCode'', JNum 1), (''appExitSpec'', JObj [(''type'', JStr [])])])]"

definition job_platform_failure :: jsval where
  "job_platform_failure =
     JObj [(''jobStatus'',
        JObj [(''appExitCode'', JNum (- 7100)),
              (''appExitSpec'', JObj [(''type'', JStr ''PLATFORM_FAILURE'')])])]"

definition job_empty_trigger_message :: jsval where
  "job_empty_trigger_message =
     JObj [(''jobStatus'',
        JObj [(''appExitCode'', JNum 1),
              (''appExitSpec'', JObj [(''type'', JStr ''USER_FAILURE'')]),
              (''appExitTriggerMessage'', JStr [])])]"

definition job_trigger_index_zero :: jsval where
  "job_trigger_index_zero =
     JObj [(''jobStatus'',
        JObj [(''appExitCode'', JNum 1),
              (''appExitSpec'', JObj [(''type'', JStr ''USER_FAILURE'')]),
              (''appExitTriggerTaskRoleName'', JStr ''worker''),
              (''appExitTriggerTaskIndex'', JNum 0)])]"

definition job_waiting :: "int \<Rightarrow> jsval" where
  "job_waiting n =
     JObj [(''jobStatus'', JObj [(''retryDetails'', JObj [(''resource'', JNum n)])])]"

definition job_bare_user_failure :: jsval where
  "job_bare_user_failure =
     JObj [(''jobStatus'', JObj [(''appExitSpec'', JObj [(''type'', JStr ''USER_FAILURE'')])])]"

definition job_dotted_key :: jsval where
  "job_dotted_key =
     JObj [(''jobStatus'', JObj [(''retryDetails'', JObj [(''resource'', JNum 1)])]),
           (''jobStatus.retryDetails.resource'', JNum 5)]"

section \<open>Properties of the value operations\<close>

lemma truthy_iff:
  "truthy v = (v \<noteq> Undefined \<and> v \<noteq> Null \<and> v \<noteq> JBool False \<and> v \<noteq> JNum 0 \<and> v \<noteq> JStr [])"
  by (cases v) auto

lemma isNil_iff: "isNil v = (v = Undefined \<or> v = Null)"
  by (cases v) simp_all

lemma stringToPath_nonempty: "stringToPath path \<noteq> []"
  by (cases path) (simp_all split: list.split)

lemma atPath_nil: "isNil v \<Longrightarrow> keys \<noteq> [] \<Longrightarrow> atPath v keys = Undefined"
  by (cases keys) simp_all

lemma get_split:
  assumes "\<not> hasKey object path" and "CHR ''.'' \<in> set path"
  shows "get object path = atPath object (stringToPath path)"
  using assms atPath_nil [of object "stringToPath path"] stringToPath_nonempty [of path]
  by (simp add: get_def baseGet_def castPath_def isKey_def Let_def)

lemma get_key:
  assumes "hasKey object path"
  shows "get object path = getProp object path"
  using assms by (cases object) (simp_all add: get_def baseGet_def castPath_def isKey_def)

lemma get_paths:
  assumes "noPathKey jobInfo"
  shows "get jobInfo ''jobStatus.appExitMessages.runtime'' =
           atPath jobInfo [''jobStatus'', ''appExitMessages'', ''runtime'']"
    and "get jobInfo ''jobStatus.appExitSpec'' = atPath jobInfo [''jobStatus'', ''appExitSpec'']"
    and "get jobInfo ''jobStatus.appExitMessages.launcher'' =
           atPath jobInfo [''jobStatus'', ''appExitMessages'', ''launcher'']"
    and "get jobInfo ''jobStatus.appExitTriggerMessage'' =
           atPath jobInfo [''jobStatus'', ''appExitTriggerMessage'']"
    and "get jobInfo ''jobStatus.appExitTriggerTaskRoleName'' =
           atPath jobInfo [''jobStatus'', ''appExitTriggerTaskRoleName'']"
    and "get jobInfo ''jobStatus.appExitTriggerTaskIndex'' =
           atPath jobInfo [''jobStatus'', ''appExitTriggerTaskIndex'']"
    and "get jobInfo ''jobStatus.retryDetails.resource'' =
           atPath jobInfo [''jobStatus'', ''retryDetails'', ''resource'']"
  using assms by (simp_all add: noPathKey_def summaryPaths_def get_split)


lemma getProp_notNil: "\<not> isNil (getProp v k) \<Longrightarrow> \<not> isNil v"
  by (cases v) simp_all

lemma atPath_snoc: "atPath v (ks @ [k]) = atPath (atPath v ks) [k]"
  by (induction ks arbitrary: v) simp_all

lemma truthy_atPath1: "truthy (atPath v [k]) = (truthy v \<and> truthy (getProp v k))"
  by (cases v) simp_all

lemma atPath1_truthy: "truthy v \<Longrightarrow> atPath v [k] = getProp v k"
  by (cases v) simp_all

lemma atPath2: "atPath v [a, b] = atPath (atPath v [a]) [b]"
  using atPath_snoc [of v "[a]" b] by simp

lemma atPath3: "atPath v [a, b, c] = atPath (atPath v [a, b]) [c]"
  using atPath_snoc [of v "[a, b]" c] by simp

lemma if_neg: "(if \<not> P then a else b) = (if P then b else a)"
  by simp

lemma andThen_Inr: "andThen (Inr x) f = f x"
  by (simp add: andThen_def)

lemma guarded_div:
  "(if truthy v \<and> truthy (getProp v k) then [Div key None [Expr (getProp v k)]] else []) =
   (if truthy (atPath v [k]) then [Div key None [Expr (atPath v [k])]] else [])"
  by (cases v) simp_all

lemma guarded_userCode:
  "(if truthy v
    then (if \<not> isNil (getProp v k) then [HintItem key h [Expr (getProp v k)]] else [])
    else []) =
   (if isNil (atPath v [k]) then [] else [HintItem key h [Expr (atPath v [k])]])"
  by (cases v) simp_all

lemma guarded_map:
  assumes "case atPath v [k] of JArr xs \<Rightarrow> True | w \<Rightarrow> \<not> truthy w"
  shows "(if truthy v \<and> truthy (getProp v k) then callMap (getProp v k) f else Inr []) =
         Inr (case atPath v [k] of JArr xs \<Rightarrow> map (\<lambda>(i, x). f x i) (enumerate 0 xs) | _ \<Rightarrow> [])"
proof (cases "truthy v \<and> truthy (getProp v k)")
  case True
  then have eq: "atPath v [k] = getProp v k" using atPath1_truthy [of v k] by blast
  with True assms show ?thesis by (cases "getProp v k") (simp_all add: callMap_def)
next
  case False
  then have "\<not> truthy (atPath v [k])" using truthy_atPath1 [of v k] by blast
  then have "(case atPath v [k] of JArr xs \<Rightarrow> map (\<lambda>(i, x). f x i) (enumerate 0 xs) | _ \<Rightarrow> []) = []"
    by (cases "atPath v [k]") simp_all
  moreover have "(if truthy v \<and> truthy (getProp v k) then callMap (getProp v k) f else Inr []) =
      Inr []"
    by (rule if_not_P [OF False])
  ultimately show ?thesis by (simp only:)
qed

lemma getUserFailureHintItems_eq:
  assumes "\<not> isNil (getProp jobInfo ''jobStatus'')"
    and "solutionWellFormed (getProp jobInfo ''jobStatus'')"
    and "noPathKey jobInfo"
  shows "getUserFailureHintItems coerce jobInfo =
           Inr (userFailureHints coerce (getProp jobInfo ''jobStatus''))"
proof -
  define js where "js = getProp jobInfo ''jobStatus''"
  have nn: "\<not> isNil js" "\<not> isNil jobInfo"
    using assms(1) getProp_notNil [of jobInfo "''jobStatus''"] by (simp_all add: js_def)
  have g: "\<And>ks. atPath jobInfo (''jobStatus'' # ks) = atPath js ks"
    using nn by (simp add: js_def)
  have m1: "member jobInfo ''jobStatus'' = Inr js"
    using nn by (simp add: member_def js_def)
  have m2: "member js ''appExitCode'' = Inr (getProp js ''appExitCode'')"
    using nn by (simp add: member_def)
  have wf: "case atPath (atPath js [''appExitSpec'']) [''solution''] of JArr xs \<Rightarrow> True | w \<Rightarrow> \<not> truthy w"
    using assms(2) unfolding solutionWellFormed_def js_def [symmetric] atPath2 .
  have g1: "\<And>k. atPath js [k] = getProp js k"
    using nn by simp
  have lhs: "getUserFailureHintItems coerce jobInfo =
    Inr ((if exitReasonParts coerce js = [] then []
          else [HintItem ''reason'' ''Exit Reason:'' (exitReasonParts coerce js)]) @
         (if exitSolutionParts js = [] then []
          else [HintItem ''solution'' ''Exit Solutions:'' (exitSolutionParts js)]) @
         [Div None (Some ''h1'') []] @ triggerHints js @ userExitCodeHint js)"
    unfolding getUserFailureHintItems_def get_paths [OF assms(3)]
    unfolding js_def [symmetric] Let_def g m1 m2 andThen_Inr
    unfolding guarded_div guarded_userCode guarded_map [OF wf] andThen_Inr
    unfolding exitReasonParts_def exitSolutionParts_def triggerHints_def
      userExitCodeHint_def Let_def atPath2 atPath3 isEmpty_def if_neg
    unfolding g1
    by (simp only: append_assoc)
  show ?thesis
    unfolding lhs userFailureHints_def js_def by (rule refl)
qed

lemma getProp_notNil_truthy: "\<not> isNil (getProp v k) \<Longrightarrow> truthy v"
  by (cases v) simp_all

lemma guarded_type:
  "(if truthy (if truthy v then getProp v k else v)
    then [HintItem key h [Expr (if truthy v then getProp v k else v)]] else []) =
   (if truthy (atPath v [k]) then [HintItem key h [Expr (atPath v [k])]] else [])"
  by (cases v) simp_all

lemma type_eq_string:
  "s \<noteq> [] \<Longrightarrow> ((if truthy v then getProp v k else v) = JStr s) = (atPath v [k] = JStr s)"
  by (cases v) auto

lemma renderHintMessage_exit:
  fixes getHumanizedJobStateString coerce this
  defines "jobInfo \<equiv> prop_jobInfo (this_props this)"
  defines "jobStatus \<equiv> getProp jobInfo ''jobStatus''"
  defines "state \<equiv> getHumanizedJobStateString jobInfo"
  defines "type \<equiv> atPath jobStatus [''appExitSpec'', ''type'']"
  assumes st: "state = JStr ''Failed'' \<or> state = JStr ''Stopped''"
    and nn: "\<not> isNil jobStatus"
    and wf: "solutionWellFormed jobStatus"
    and np: "noPathKey jobInfo"
  shows "renderHintMessage getHumanizedJobStateString coerce this =
    Inr (Some (MessageBar
      (if state = JStr ''Failed'' then MessageBarType_error else MessageBarType_info)
      [Div None None
        ([HintItem ''platform-exit-code'' ''Exit Code:'' [Expr (getProp jobStatus ''appExitCode'')]] @
         (if truthy type then [HintItem ''type'' ''Exit Type:'' [Expr type]] else []) @
         (if type = JStr ''USER_FAILURE'' then userFailureHints coerce jobStatus
          else [(HintItem ''solution'' ''Exit Solutions:''
               [Text ''Please send the '',
                Link showExitDiagnostics [Text ''exit diagnostics''],
                Text '' to your administrator for further investigation.''])]))]))"
proof -
  have tr: "truthy jobInfo"
    using nn getProp_notNil_truthy unfolding jobStatus_def by blast
  have nj: "\<not> isNil jobInfo"
    using nn getProp_notNil unfolding jobStatus_def by blast
  have m1: "member jobInfo ''jobStatus'' = Inr jobStatus"
    using nj by (simp add: member_def jobStatus_def)
  have m2: "\<And>k. member jobStatus k = Inr (getProp jobStatus k)"
    using nn by (simp add: member_def)
  have uf: "getUserFailureHintItems coerce jobInfo = Inr (userFailureHints coerce jobStatus)"
    unfolding jobStatus_def using nn wf np getUserFailureHintItems_eq unfolding jobStatus_def by blast
  have ty: "type = atPath (getProp jobStatus ''appExitSpec'') [''type'']"
    using nn unfolding type_def atPath2 by simp
  have ne: "''USER_FAILURE'' \<noteq> []" by simp
  have "renderHintMessage getHumanizedJobStateString coerce this =
    andThen (if type = JStr ''USER_FAILURE'' then Inr (userFailureHints coerce jobStatus)
             else Inr [(HintItem ''solution'' ''Exit Solutions:''
               [Text ''Please send the '',
                Link showExitDiagnostics [Text ''exit diagnostics''],
                Text '' to your administrator for further investigation.''])])
      (\<lambda>result3. Inr (Some (MessageBar
        (if state = JStr ''Failed'' then MessageBarType_error else MessageBarType_info)
        [Div None None
          ([HintItem ''platform-exit-code'' ''Exit Code:'' [Expr (getProp jobStatus ''appExitCode'')]] @
           (if truthy type then [HintItem ''type'' ''Exit Type:'' [Expr type]] else []) @
           result3)])))"
    unfolding renderHintMessage_def Let_def jobInfo_def [symmetric] state_def [symmetric]
      if_not_P [OF iffD2 [OF not_not tr]] if_P [OF st] m1 m2 andThen_Inr guarded_type
      type_eq_string [OF ne] ty [symmetric] uf
    by (rule refl)
  then show ?thesis
    by (simp add: andThen_def)
qed

lemmas value_simps =
  member_def andThen_def js_gt_def js_ge_def isEmpty_def callMap_def js_includes_def
  StoppableStatus_def get_def baseGet_def castPath_def isKey_def

lemmas model_simps =
  renderHintMessage_def getUserFailureHintItems_def
  stopDisabled_def Let_def

lemmas reading_simps =
  hintsWithHeader_def solutionWellFormed_def exitReasonParts_def exitSolutionParts_def
  triggerHints_def userExitCodeHint_def userFailureHints_def

lemmas input_simps = summaryOf_def initialState_def noPathKey_def summaryPaths_def

lemma js_gt_JNum: "js_gt coerce (JNum n) k = (k < n)"
  by (simp add: js_gt_def)

lemma js_ge_JNum: "js_ge coerce (JNum n) k = (k \<le> n)"
  by (simp add: js_ge_def)

lemma hintsWithHeader_append:
  "hintsWithHeader h (xs @ ys) = hintsWithHeader h xs @ hintsWithHeader h ys"
  by (simp add: hintsWithHeader_def)

lemma hintsWithHeader_Cons:
  "hintsWithHeader h (x # xs) = (if header x = Some h then [x] else []) @ hintsWithHeader h xs"
  by (simp add: hintsWithHeader_def)

lemma hintsWithHeader_Nil: "hintsWithHeader h [] = []"
  by (simp add: hintsWithHeader_def)

lemma hintsWithHeader_triggerHints:
  "hintsWithHeader ''Exit Reason:'' (triggerHints js) = []"
  "hintsWithHeader ''Exit Solutions:'' (triggerHints js) = []"
  "hintsWithHeader ''Exit Type:'' (triggerHints js) = []"
  by (simp_all add: triggerHints_def Let_def hintsWithHeader_def)

lemma hintsWithHeader_userExitCodeHint:
  "h \<noteq> ''Original User Exit Code:'' \<Longrightarrow> hintsWithHeader h (userExitCodeHint js) = []"
  by (simp add: userExitCodeHint_def Let_def hintsWithHeader_def)

lemma hintsWithHeader_userFailureHints_reason:
  "hintsWithHeader ''Exit Reason:'' (userFailureHints coerce js) =
     (if exitReasonParts coerce js = [] then []
      else [HintItem ''reason'' ''Exit Reason:'' (exitReasonParts coerce js)])"
  unfolding userFailureHints_def hintsWithHeader_append
  by (simp add: hintsWithHeader_triggerHints hintsWithHeader_userExitCodeHint)
     (simp add: hintsWithHeader_def)

text \<open>From here on \<open>atPath\<close> is unfolded only where a concrete path is evaluated.\<close>

declare atPath.simps [simp del]

lemma hintsWithHeader_userFailureHints_solution:
  "hintsWithHeader ''Exit Solutions:'' (userFailureHints coerce js) =
     (if exitSolutionParts js = [] then []
      else [HintItem ''solution'' ''Exit Solutions:'' (exitSolutionParts js)])"
  unfolding userFailureHints_def hintsWithHeader_append
  by (simp add: hintsWithHeader_triggerHints hintsWithHeader_userExitCodeHint)
     (simp add: hintsWithHeader_def)

lemma content_enumerate:
  "concat (map (content \<circ> (\<lambda>(i, x). Div (Some (key i)) None [Expr x])) (enumerate n xs)) = xs"
  by (induction xs arbitrary: n) simp_all

lemma hintsWithHeader_single:
  "hintsWithHeader h [HintItem k h' children] = (if h' = h then [HintItem k h' children] else [])"
  by (simp add: hintsWithHeader_def)

lemma hintsWithHeader_userFailureHints_trigger:
  "hintsWithHeader ''Exit Trigger Message:'' (userFailureHints coerce js) =
     hintsWithHeader ''Exit Trigger Message:'' (triggerHints js)"
  "hintsWithHeader ''Exit Trigger Task Role:'' (userFailureHints coerce js) =
     hintsWithHeader ''Exit Trigger Task Role:'' (triggerHints js)"
  "hintsWithHeader ''Exit Trigger Task Index:'' (userFailureHints coerce js) =
     hintsWithHeader ''Exit Trigger Task Index:'' (triggerHints js)"
  unfolding userFailureHints_def hintsWithHeader_append
  by (simp_all add: hintsWithHeader_userExitCodeHint hintsWithHeader_single
      hintsWithHeader_Cons hintsWithHeader_Nil)

text \<open>
  A property of \<open>jobInfo\<close> named by the whole path is what \<open>get\<close> reads: here the nested
  retry count is 1, the property \<open>'jobStatus.retryDetails.resource'\<close> is 5, and the bar shows 5.
\<close>

lemma renderHintMessage_reads_dotted_key:
  "\<not> noPathKey job_dotted_key \<and>
   atPath job_dotted_key [''jobStatus'', ''retryDetails'', ''resource''] = JNum 1 \<and>
   get job_dotted_key ''jobStatus.retryDetails.resource'' = JNum 5 \<and>
   (\<exists>hints. renderHintMessage (\<lambda>jobInfo. JStr ''Waiting'') coerce (summaryOf job_dotted_key) =
      Inr (Some (MessageBar MessageBarType_warning
        [Div None None
           (HintItem ''conflict-retry-count'' ''Conflict Count:'' [Expr (JNum 5)] # hints)])))"
  by (simp add: job_dotted_key_def renderHintMessage_def Let_def input_simps value_simps
      atPath.simps)

text \<open>
  The two ways in which the methods throw: a job without \<open>jobStatus\<close>, and a user failure
  whose \<open>appExitSpec.solution\<close> is truthy and not an array.
\<close>

lemma renderHintMessage_throws_without_jobStatus:
  "renderHintMessage (\<lambda>jobInfo. JStr ''Failed'') coerce (summaryOf (JObj [])) = Inl TypeError"
  by (simp add: renderHintMessage_def Let_def input_simps member_def andThen_def)

lemma getUserFailureHintItems_throws_on_solution_string:
  "getUserFailureHintItems coerce
     (JObj [(''jobStatus'', JObj [(''appExitSpec'', JObj [(''solution'', JStr ''retry'')])])]) =
   Inl TypeError"
  by (simp add: getUserFailureHintItems_def Let_def value_simps atPath.simps)

section \<open>Claims\<close>

text \<open>
  C1. When the humanized state of the job is none of Failed, Stopped and Waiting,
  \<open>renderHintMessage\<close> returns nothing: no hint and no severity.
\<close>

theorem renderHintMessage_other_state:
  fixes getHumanizedJobStateString coerce this
  defines "state \<equiv> getHumanizedJobStateString (prop_jobInfo (this_props this))"
  assumes "state \<noteq> JStr ''Failed''" and "state \<noteq> JStr ''Stopped''"
    and "state \<noteq> JStr ''Waiting''"
  shows "renderHintMessage getHumanizedJobStateString coerce this = Inr None"
  using assms by (simp add: renderHintMessage_def Let_def)

theorem renderHintMessage_other_state_witness:
  "JStr ''Running'' \<noteq> JStr ''Failed'' \<and> JStr ''Running'' \<noteq> JStr ''Stopped'' \<and>
   JStr ''Running'' \<noteq> JStr ''Waiting'' \<and>
   renderHintMessage (\<lambda>jobInfo. JStr ''Running'') (\<lambda>v. None) (summaryOf job_running) = Inr None"
  using renderHintMessage_other_state
    [where getHumanizedJobStateString = "\<lambda>jobInfo. JStr ''Running''"
       and coerce = "\<lambda>v. None" and this = "summaryOf job_running"]
  by simp

text \<open>
  C2, as stated, fails on a part that is present but empty. Here \<open>appExitSpec.reason\<close> is
  the empty string and nothing else can be collected: the field is there, and no
  "Exit Reason" hint is built, because a part is collected only when it is truthy.
\<close>

theorem exit_reason_empty_counterexample:
  "atPath job_empty_reason [''jobStatus'', ''appExitSpec'', ''reason''] = JStr [] \<and>
   noPathKey job_empty_reason \<and>
   renderHintMessage (\<lambda>jobInfo. JStr ''Failed'') (\<lambda>v. None) (summaryOf job_empty_reason) =
     Inr (Some (MessageBar MessageBarType_error
       [Div None None
         [HintItem ''platform-exit-code'' ''Exit Code:'' [Expr (JNum 1)],
          HintItem ''type'' ''Exit Type:'' [Expr (JStr ''USER_FAILURE'')],
          Div None (Some ''h1'') []]]))"
  by (simp add: job_empty_reason_def input_simps model_simps value_simps atPath.simps)

text \<open>
  C2 (amended). For a Failed or Stopped job of exit type \<open>USER_FAILURE\<close> whose \<open>jobInfo\<close> has the shape of the data model (a \<open>jobStatus\<close>, no
  property of \<open>jobInfo\<close> named by one of the dotted paths, \<open>appExitSpec.solution\<close> an array
  when it is truthy),
  the parts of the "Exit Reason" hint are, in this order, \<open>appExitSpec.reason\<close> when it is
  truthy (there and not empty), then \<open>appExitMessages.runtime.reason\<close> when it is truthy and
  the exit code is greater than 0, or else \<open>appExitMessages.launcher\<close> when it is truthy. The
  hint is built exactly when one of these parts was collected, and when the exit code is not
  greater than 0 no part comes from the runtime (when it is, none comes from the launcher).
\<close>

theorem exit_reason_hint:
  fixes getHumanizedJobStateString coerce this
  defines "jobInfo \<equiv> prop_jobInfo (this_props this)"
  defines "jobStatus \<equiv> getProp jobInfo ''jobStatus''"
  defines "state \<equiv> getHumanizedJobStateString jobInfo"
  defines "code \<equiv> getProp jobStatus ''appExitCode''"
  defines "specReason \<equiv> atPath jobStatus [''appExitSpec'', ''reason'']"
  defines "runtimeReason \<equiv> atPath jobStatus [''appExitMessages'', ''runtime'', ''reason'']"
  defines "launcher \<equiv> atPath jobStatus [''appExitMessages'', ''launcher'']"
  defines "parts \<equiv> exitReasonParts coerce jobStatus"
  assumes st: "state = JStr ''Failed'' \<or> state = JStr ''Stopped''"
    and nn: "\<not> isNil jobStatus"
    and np: "noPathKey jobInfo"
    and wf: "solutionWellFormed jobStatus"
    and uf: "atPath jobStatus [''appExitSpec'', ''type''] = JStr ''USER_FAILURE''"
  shows "\<exists>bar. renderHintMessage getHumanizedJobStateString coerce this = Inr (Some bar) \<and>
           hintsWithHeader ''Exit Reason:'' (hints bar) =
             (if parts = [] then [] else [HintItem ''reason'' ''Exit Reason:'' parts]) \<and>
           parts =
             (if truthy specReason
              then [Div (Some ''spec-reason'') None [Expr specReason]] else []) @
             (if js_gt coerce code 0
              then (if truthy runtimeReason
                    then [Div (Some ''runtime-reason'') None [Expr runtimeReason]] else [])
              else (if truthy launcher
                    then [Div (Some ''launcher-reason'') None [Expr launcher]] else [])) \<and>
           concat (map content parts) =
             (if truthy specReason then [specReason] else []) @
             (if js_gt coerce code 0
              then (if truthy runtimeReason then [runtimeReason] else [])
              else (if truthy launcher then [launcher] else [])) \<and>
           (parts = []) =
             (\<not> truthy specReason \<and>
              (if js_gt coerce code 0 then \<not> truthy runtimeReason else \<not> truthy launcher)) \<and>
           (if js_gt coerce code 0 then Some ''launcher-reason'' \<notin> keyOf ` set parts
            else Some ''runtime-reason'' \<notin> keyOf ` set parts) \<and>
           (js_gt coerce code 0 = (case toNumber coerce code of None \<Rightarrow> False | Some n \<Rightarrow> 0 < n))"
proof -
  let ?bar = "MessageBar
      (if state = JStr ''Failed'' then MessageBarType_error else MessageBarType_info)
      [Div None None
        ([HintItem ''platform-exit-code'' ''Exit Code:'' [Expr (getProp jobStatus ''appExitCode'')]] @
         [HintItem ''type'' ''Exit Type:'' [Expr (JStr ''USER_FAILURE'')]] @
         userFailureHints coerce jobStatus)]"
  have r: "renderHintMessage getHumanizedJobStateString coerce this = Inr (Some ?bar)"
    using renderHintMessage_exit [of getHumanizedJobStateString this coerce] st nn np wf uf
    unfolding jobInfo_def jobStatus_def state_def by simp
  have h: "hintsWithHeader ''Exit Reason:'' (hints ?bar) =
             (if parts = [] then [] else [HintItem ''reason'' ''Exit Reason:'' parts])"
    unfolding parts_def
    by (simp add: hintsWithHeader_append hintsWithHeader_Cons hintsWithHeader_Nil
        hintsWithHeader_userFailureHints_reason)
  have p: "parts =
             (if truthy specReason
              then [Div (Some ''spec-reason'') None [Expr specReason]] else []) @
             (if js_gt coerce code 0
              then (if truthy runtimeReason
                    then [Div (Some ''runtime-reason'') None [Expr runtimeReason]] else [])
              else (if truthy launcher
                    then [Div (Some ''launcher-reason'') None [Expr launcher]] else []))"
    unfolding parts_def exitReasonParts_def Let_def code_def specReason_def runtimeReason_def
      launcher_def
    by (rule refl)
  have c: "concat (map content parts) =
             (if truthy specReason then [specReason] else []) @
             (if js_gt coerce code 0
              then (if truthy runtimeReason then [runtimeReason] else [])
              else (if truthy launcher then [launcher] else []))"
    unfolding p by simp
  have e: "(parts = []) =
             (\<not> truthy specReason \<and>
              (if js_gt coerce code 0 then \<not> truthy runtimeReason else \<not> truthy launcher))"
    unfolding p by simp
  have k: "(if js_gt coerce code 0 then Some ''launcher-reason'' \<notin> keyOf ` set parts
            else Some ''runtime-reason'' \<notin> keyOf ` set parts)"
    unfolding p by auto
  have n: "js_gt coerce code 0 = (case toNumber coerce code of None \<Rightarrow> False | Some n \<Rightarrow> 0 < n)"
    by (simp add: js_gt_def)
  from r h p c e k n show ?thesis by blast
qed

theorem exit_reason_hint_witness:
  "(JStr ''Failed'' = JStr ''Failed'' \<or> JStr ''Failed'' = JStr ''Stopped'') \<and>
   \<not> isNil (getProp job_launcher ''jobStatus'') \<and>
   noPathKey job_launcher \<and>
   solutionWellFormed (getProp job_launcher ''jobStatus'') \<and>
   atPath (getProp job_launcher ''jobStatus'') [''appExitSpec'', ''type''] = JStr ''USER_FAILURE'' \<and>
   (\<exists>bar. renderHintMessage (\<lambda>jobInfo. JStr ''Failed'') (\<lambda>v. None) (summaryOf job_launcher) =
            Inr (Some bar) \<and>
          hintsWithHeader ''Exit Reason:'' (hints bar) =
            [HintItem ''reason'' ''Exit Reason:''
               [Div (Some ''spec-reason'') None [Expr (JStr ''R1'')],
                Div (Some ''launcher-reason'') None [Expr (JStr ''L1'')]]])"
  using exit_reason_hint
    [where getHumanizedJobStateString = "\<lambda>jobInfo. JStr ''Failed''"
       and coerce = "\<lambda>v. None" and this = "summaryOf job_launcher"]
  by (auto simp add: job_launcher_def input_simps reading_simps value_simps atPath.simps)

text \<open>
  C3, as stated, fails on a runtime solution that is present but empty: the collection the
  claim describes holds that one entry, and no "Exit Solutions" hint is built.
\<close>

theorem exit_solutions_empty_counterexample:
  "atPath job_empty_runtime_solution
     [''jobStatus'', ''appExitMessages'', ''runtime'', ''solution''] = JStr [] \<and>
   noPathKey job_empty_runtime_solution \<and>
   renderHintMessage (\<lambda>jobInfo. JStr ''Failed'') (\<lambda>v. None)
       (summaryOf job_empty_runtime_solution) =
     Inr (Some (MessageBar MessageBarType_error
       [Div None None
         [HintItem ''platform-exit-code'' ''Exit Code:'' [Expr (JNum 1)],
          HintItem ''type'' ''Exit Type:'' [Expr (JStr ''USER_FAILURE'')],
          Div None (Some ''h1'') []]]))"
  by (simp add: job_empty_runtime_solution_def input_simps model_simps value_simps atPath.simps)

text \<open>
  C3 (amended). For a Failed or Stopped job of exit type \<open>USER_FAILURE\<close> whose \<open>jobInfo\<close> has the shape of the data model (a \<open>jobStatus\<close>, no
  property of \<open>jobInfo\<close> named by one of the dotted paths, \<open>appExitSpec.solution\<close> an array
  when it is truthy),
  the "Exit Solutions" hint shows \<open>appExitMessages.runtime.solution\<close> first, when it is truthy
  (there and not empty), then every entry of the array \<open>appExitSpec.solution\<close> in its order,
  one part for each; the hint is built exactly when this collection is not empty.
\<close>

theorem exit_solutions_hint:
  fixes getHumanizedJobStateString coerce this
  defines "jobInfo \<equiv> prop_jobInfo (this_props this)"
  defines "jobStatus \<equiv> getProp jobInfo ''jobStatus''"
  defines "state \<equiv> getHumanizedJobStateString jobInfo"
  defines "runtimeSolution \<equiv> atPath jobStatus [''appExitMessages'', ''runtime'', ''solution'']"
  defines "specSolution \<equiv> atPath jobStatus [''appExitSpec'', ''solution'']"
  defines "parts \<equiv> exitSolutionParts jobStatus"
  assumes st: "state = JStr ''Failed'' \<or> state = JStr ''Stopped''"
    and nn: "\<not> isNil jobStatus"
    and np: "noPathKey jobInfo"
    and wf: "solutionWellFormed jobStatus"
    and uf: "atPath jobStatus [''appExitSpec'', ''type''] = JStr ''USER_FAILURE''"
  shows "\<exists>bar. renderHintMessage getHumanizedJobStateString coerce this = Inr (Some bar) \<and>
           hintsWithHeader ''Exit Solutions:'' (hints bar) =
             (if parts = [] then [] else [HintItem ''solution'' ''Exit Solutions:'' parts]) \<and>
           parts =
             (if truthy runtimeSolution
              then [Div (Some ''runtime-solution'') None [Expr runtimeSolution]] else []) @
             (case specSolution of
                JArr xs \<Rightarrow>
                  map (\<lambda>(i, x). Div (Some (''spec-reason-'' @ toString_nat i)) None [Expr x])
                    (enumerate 0 xs)
              | _ \<Rightarrow> []) \<and>
           concat (map content parts) =
             (if truthy runtimeSolution then [runtimeSolution] else []) @
             (case specSolution of JArr xs \<Rightarrow> xs | _ \<Rightarrow> []) \<and>
           length parts = length (concat (map content parts))"
proof -
  let ?bar = "MessageBar
      (if state = JStr ''Failed'' then MessageBarType_error else MessageBarType_info)
      [Div None None
        ([HintItem ''platform-exit-code'' ''Exit Code:'' [Expr (getProp jobStatus ''appExitCode'')]] @
         [HintItem ''type'' ''Exit Type:'' [Expr (JStr ''USER_FAILURE'')]] @
         userFailureHints coerce jobStatus)]"
  have r: "renderHintMessage getHumanizedJobStateString coerce this = Inr (Some ?bar)"
    using renderHintMessage_exit [of getHumanizedJobStateString this coerce] st nn np wf uf
    unfolding jobInfo_def jobStatus_def state_def by simp
  have h: "hintsWithHeader ''Exit Solutions:'' (hints ?bar) =
             (if parts = [] then [] else [HintItem ''solution'' ''Exit Solutions:'' parts])"
    unfolding parts_def
    by (simp add: hintsWithHeader_append hintsWithHeader_Cons hintsWithHeader_Nil
        hintsWithHeader_userFailureHints_solution)
  have p: "parts =
             (if truthy runtimeSolution
              then [Div (Some ''runtime-solution'') None [Expr runtimeSolution]] else []) @
             (case specSolution of
                JArr xs \<Rightarrow>
                  map (\<lambda>(i, x). Div (Some (''spec-reason-'' @ toString_nat i)) None [Expr x])
                    (enumerate 0 xs)
              | _ \<Rightarrow> [])"
    unfolding parts_def exitSolutionParts_def Let_def runtimeSolution_def specSolution_def
    by (rule refl)
  have c: "concat (map content parts) =
             (if truthy runtimeSolution then [runtimeSolution] else []) @
             (case specSolution of JArr xs \<Rightarrow> xs | _ \<Rightarrow> [])"
    unfolding p by (simp add: content_enumerate split: jsval.split)
  have l: "length parts = length (concat (map content parts))"
    unfolding c unfolding p by (simp split: jsval.split)
  from r h p c l show ?thesis by blast
qed

theorem exit_solutions_hint_witness:
  "(JStr ''Failed'' = JStr ''Failed'' \<or> JStr ''Failed'' = JStr ''Stopped'') \<and>
   \<not> isNil (getProp job_solutions ''jobStatus'') \<and>
   noPathKey job_solutions \<and>
   solutionWellFormed (getProp job_solutions ''jobStatus'') \<and>
   atPath (getProp job_solutions ''jobStatus'') [''appExitSpec'', ''type''] = JStr ''USER_FAILURE'' \<and>
   (\<exists>bar. renderHintMessage (\<lambda>jobInfo. JStr ''Failed'') (\<lambda>v. None) (summaryOf job_solutions) =
            Inr (Some bar) \<and>
          hintsWithHeader ''Exit Solutions:'' (hints bar) =
            [HintItem ''solution'' ''Exit Solutions:''
               [Div (Some ''runtime-solution'') None [Expr (JStr ''S1'')],
                Div (Some ''spec-reason-0'') None [Expr (JStr ''S2'')],
                Div (Some ''spec-reason-1'') None [Expr (JStr ''S3'')]]])"
  using exit_solutions_hint
    [where getHumanizedJobStateString = "\<lambda>jobInfo. JStr ''Failed''"
       and coerce = "\<lambda>v. None" and this = "summaryOf job_solutions"]
  by (auto simp add: job_solutions_def input_simps reading_simps value_simps atPath.simps
      toString_nat.simps)

text \<open>
  C4, as stated, fails on an exit type that is present but empty: no "Exit Type" hint is
  built for it.
\<close>

theorem exit_type_empty_counterexample:
  "atPath job_empty_type [''jobStatus'', ''appExitSpec'', ''type''] = JStr [] \<and>
   noPathKey job_empty_type \<and>
   renderHintMessage (\<lambda>jobInfo. JStr ''Failed'') (\<lambda>v. None) (summaryOf job_empty_type) =
     Inr (Some (MessageBar MessageBarType_error
       [Div None None
         [HintItem ''platform-exit-code'' ''Exit Code:'' [Expr (JNum 1)],
          HintItem ''solution'' ''Exit Solutions:''
                [Text ''Please send the '',
                 Link showExitDiagnostics [Text ''exit diagnostics''],
                 Text '' to your administrator for further investigation.'']]]))"
  by (simp add: job_empty_type_def input_simps renderHintMessage_def Let_def value_simps
      atPath.simps)

text \<open>
  C4 (amended). For a Failed or Stopped job whose \<open>jobInfo\<close> has the shape of the data model (a \<open>jobStatus\<close>, no
  property of \<open>jobInfo\<close> named by one of the dotted paths, \<open>appExitSpec.solution\<close> an array
  when it is truthy),
  the hints are: the exit code; an "Exit Type" hint when \<open>appExitSpec.type\<close> is truthy (there
  and not empty); then the hints of \<open>getUserFailureHintItems\<close> when the type is
  \<open>USER_FAILURE\<close>, and in every other case the one hint, under the header "Exit Solutions:",
  that asks to send the exit diagnostics (a link that opens them) to the administrator, which
  is none of the user-failure hints.
\<close>

theorem exit_type_hint:
  fixes getHumanizedJobStateString coerce this
  defines "jobInfo \<equiv> prop_jobInfo (this_props this)"
  defines "jobStatus \<equiv> getProp jobInfo ''jobStatus''"
  defines "state \<equiv> getHumanizedJobStateString jobInfo"
  defines "type \<equiv> atPath jobStatus [''appExitSpec'', ''type'']"
  assumes st: "state = JStr ''Failed'' \<or> state = JStr ''Stopped''"
    and nn: "\<not> isNil jobStatus"
    and np: "noPathKey jobInfo"
    and wf: "solutionWellFormed jobStatus"
  shows "\<exists>bar. renderHintMessage getHumanizedJobStateString coerce this = Inr (Some bar) \<and>
           hints bar =
             [HintItem ''platform-exit-code'' ''Exit Code:'' [Expr (getProp jobStatus ''appExitCode'')]] @
             (if truthy type then [HintItem ''type'' ''Exit Type:'' [Expr type]] else []) @
             (if type = JStr ''USER_FAILURE'' then userFailureHints coerce jobStatus
              else [HintItem ''solution'' ''Exit Solutions:''
                      [Text ''Please send the '',
                       Link showExitDiagnostics [Text ''exit diagnostics''],
                       Text '' to your administrator for further investigation.'']]) \<and>
           getUserFailureHintItems coerce jobInfo = Inr (userFailureHints coerce jobStatus) \<and>
           HintItem ''solution'' ''Exit Solutions:''
             [Text ''Please send the '',
              Link showExitDiagnostics [Text ''exit diagnostics''],
              Text '' to your administrator for further investigation.'']
             \<notin> set (userFailureHints coerce jobStatus)"
proof -
  let ?diagnostics = "HintItem ''solution'' ''Exit Solutions:''
             [Text ''Please send the '',
              Link showExitDiagnostics [Text ''exit diagnostics''],
              Text '' to your administrator for further investigation.'']"
  have r: "renderHintMessage getHumanizedJobStateString coerce this =
    Inr (Some (MessageBar
      (if state = JStr ''Failed'' then MessageBarType_error else MessageBarType_info)
      [Div None None
        ([HintItem ''platform-exit-code'' ''Exit Code:'' [Expr (getProp jobStatus ''appExitCode'')]] @
         (if truthy type then [HintItem ''type'' ''Exit Type:'' [Expr type]] else []) @
         (if type = JStr ''USER_FAILURE'' then userFailureHints coerce jobStatus
          else [?diagnostics]))]))"
    using renderHintMessage_exit [of getHumanizedJobStateString this coerce] st nn np wf
    unfolding jobInfo_def jobStatus_def state_def type_def by simp
  have u: "getUserFailureHintItems coerce jobInfo = Inr (userFailureHints coerce jobStatus)"
    using getUserFailureHintItems_eq [of jobInfo coerce] nn np wf
    unfolding jobStatus_def by simp
  have d: "?diagnostics \<notin>
      set (hintsWithHeader ''Exit Solutions:'' (userFailureHints coerce jobStatus))"
    unfolding hintsWithHeader_userFailureHints_solution
    by (auto simp: exitSolutionParts_def Let_def split: jsval.splits if_splits)
  have "?diagnostics \<notin> set (userFailureHints coerce jobStatus)"
    using d by (simp add: hintsWithHeader_def)
  with r u show ?thesis by simp
qed

theorem exit_type_hint_witness:
  "(JStr ''Stopped'' = JStr ''Failed'' \<or> JStr ''Stopped'' = JStr ''Stopped'') \<and>
   \<not> isNil (getProp job_platform_failure ''jobStatus'') \<and>
   noPathKey job_platform_failure \<and>
   solutionWellFormed (getProp job_platform_failure ''jobStatus'') \<and>
   (\<exists>bar. renderHintMessage (\<lambda>jobInfo. JStr ''Stopped'') (\<lambda>v. None)
            (summaryOf job_platform_failure) = Inr (Some bar) \<and>
          hints bar =
            [HintItem ''platform-exit-code'' ''Exit Code:'' [Expr (JNum (- 7100))],
             HintItem ''type'' ''Exit Type:'' [Expr (JStr ''PLATFORM_FAILURE'')],
             HintItem ''solution'' ''Exit Solutions:''
               [Text ''Please send the '',
                Link showExitDiagnostics [Text ''exit diagnostics''],
                Text '' to your administrator for further investigation.'']])"
  using exit_type_hint
    [where getHumanizedJobStateString = "\<lambda>jobInfo. JStr ''Stopped''"
       and coerce = "\<lambda>v. None" and this = "summaryOf job_platform_failure"]
  by (auto simp add: job_platform_failure_def input_simps solutionWellFormed_def atPath.simps)

text \<open>
  C5. For a Failed or Stopped job whose \<open>jobInfo\<close> has the shape of the data model (a \<open>jobStatus\<close>, no
  property of \<open>jobInfo\<close> named by one of the dotted paths, \<open>appExitSpec.solution\<close> an array
  when it is truthy),
  the first hint is "Exit Code" with the value of \<open>appExitCode\<close>; the message bar is of type
  error when the state is Failed and of type info when it is Stopped.
\<close>

theorem exit_code_hint_first:
  fixes getHumanizedJobStateString coerce this
  defines "jobInfo \<equiv> prop_jobInfo (this_props this)"
  defines "jobStatus \<equiv> getProp jobInfo ''jobStatus''"
  defines "state \<equiv> getHumanizedJobStateString jobInfo"
  assumes st: "state = JStr ''Failed'' \<or> state = JStr ''Stopped''"
    and nn: "\<not> isNil jobStatus"
    and np: "noPathKey jobInfo"
    and wf: "solutionWellFormed jobStatus"
  shows "\<exists>rest. renderHintMessage getHumanizedJobStateString coerce this =
           Inr (Some (MessageBar
             (if state = JStr ''Failed'' then MessageBarType_error else MessageBarType_info)
             [Div None None
               (HintItem ''platform-exit-code'' ''Exit Code:''
                  [Expr (getProp jobStatus ''appExitCode'')] # rest)]))"
  using renderHintMessage_exit [of getHumanizedJobStateString this coerce] st nn np wf
  unfolding jobInfo_def jobStatus_def state_def by simp

theorem exit_code_hint_first_witness:
  "(JStr ''Stopped'' = JStr ''Failed'' \<or> JStr ''Stopped'' = JStr ''Stopped'') \<and>
   \<not> isNil (getProp job_platform_failure ''jobStatus'') \<and>
   noPathKey job_platform_failure \<and>
   solutionWellFormed (getProp job_platform_failure ''jobStatus'') \<and>
   (\<exists>rest. renderHintMessage (\<lambda>jobInfo. JStr ''Stopped'') (\<lambda>v. None)
             (summaryOf job_platform_failure) =
           Inr (Some (MessageBar MessageBarType_info
             [Div None None
               (HintItem ''platform-exit-code'' ''Exit Code:'' [Expr (JNum (- 7100))] # rest)])))"
  using exit_code_hint_first
    [where getHumanizedJobStateString = "\<lambda>jobInfo. JStr ''Stopped''"
       and coerce = "\<lambda>v. None" and this = "summaryOf job_platform_failure"]
  by (auto simp add: job_platform_failure_def input_simps solutionWellFormed_def atPath.simps)

text \<open>
  C6, as stated, fails for the trigger message (and likewise the task role): the message is
  tested for truthiness, so a message that is present as the empty string gives no hint.
\<close>

theorem exit_trigger_message_empty_counterexample:
  "atPath job_empty_trigger_message [''jobStatus'', ''appExitTriggerMessage''] = JStr [] \<and>
   noPathKey job_empty_trigger_message \<and>
   renderHintMessage (\<lambda>jobInfo. JStr ''Failed'') (\<lambda>v. None)
       (summaryOf job_empty_trigger_message) =
     Inr (Some (MessageBar MessageBarType_error
       [Div None None
         [HintItem ''platform-exit-code'' ''Exit Code:'' [Expr (JNum 1)],
          HintItem ''type'' ''Exit Type:'' [Expr (JStr ''USER_FAILURE'')],
          Div None (Some ''h1'') []]]))"
  by (simp add: job_empty_trigger_message_def input_simps model_simps value_simps atPath.simps)

text \<open>
  C6 (amended). For a Failed or Stopped job of exit type \<open>USER_FAILURE\<close> whose \<open>jobInfo\<close> has the shape of the data model (a \<open>jobStatus\<close>, no
  property of \<open>jobInfo\<close> named by one of the dotted paths, \<open>appExitSpec.solution\<close> an array
  when it is truthy),
  the three trigger hints are built independently of each other: "Exit Trigger Message" and
  "Exit Trigger Task Role" when their field is truthy (there and not empty),
  "Exit Trigger Task Index" when its field is neither \<open>undefined\<close> nor \<open>null\<close>, so also for
  the index 0.
\<close>

theorem exit_trigger_hints:
  fixes getHumanizedJobStateString coerce this
  defines "jobInfo \<equiv> prop_jobInfo (this_props this)"
  defines "jobStatus \<equiv> getProp jobInfo ''jobStatus''"
  defines "state \<equiv> getHumanizedJobStateString jobInfo"
  defines "message \<equiv> getProp jobStatus ''appExitTriggerMessage''"
  defines "role \<equiv> getProp jobStatus ''appExitTriggerTaskRoleName''"
  defines "idx \<equiv> getProp jobStatus ''appExitTriggerTaskIndex''"
  assumes st: "state = JStr ''Failed'' \<or> state = JStr ''Stopped''"
    and nn: "\<not> isNil jobStatus"
    and np: "noPathKey jobInfo"
    and wf: "solutionWellFormed jobStatus"
    and uf: "atPath jobStatus [''appExitSpec'', ''type''] = JStr ''USER_FAILURE''"
  shows "\<exists>bar. renderHintMessage getHumanizedJobStateString coerce this = Inr (Some bar) \<and>
           hintsWithHeader ''Exit Trigger Message:'' (hints bar) =
             (if truthy message
              then [HintItem ''trigger-message'' ''Exit Trigger Message:'' [Expr message]]
              else []) \<and>
           hintsWithHeader ''Exit Trigger Task Role:'' (hints bar) =
             (if truthy role
              then [HintItem ''task-role'' ''Exit Trigger Task Role:'' [Expr role]]
              else []) \<and>
           hintsWithHeader ''Exit Trigger Task Index:'' (hints bar) =
             (if idx = Undefined \<or> idx = Null then []
              else [HintItem ''container-id'' ''Exit Trigger Task Index:'' [Expr idx]])"
proof -
  let ?bar = "MessageBar
      (if state = JStr ''Failed'' then MessageBarType_error else MessageBarType_info)
      [Div None None
        ([HintItem ''platform-exit-code'' ''Exit Code:'' [Expr (getProp jobStatus ''appExitCode'')]] @
         [HintItem ''type'' ''Exit Type:'' [Expr (JStr ''USER_FAILURE'')]] @
         userFailureHints coerce jobStatus)]"
  have r: "renderHintMessage getHumanizedJobStateString coerce this = Inr (Some ?bar)"
    using renderHintMessage_exit [of getHumanizedJobStateString this coerce] st nn np wf uf
    unfolding jobInfo_def jobStatus_def state_def by simp
  have n: "isNil idx = (idx = Undefined \<or> idx = Null)"
    by (cases idx) simp_all
  have m: "hintsWithHeader ''Exit Trigger Message:'' (hints ?bar) =
             (if truthy message
              then [HintItem ''trigger-message'' ''Exit Trigger Message:'' [Expr message]]
              else [])"
    by (simp add: hintsWithHeader_append hintsWithHeader_Cons hintsWithHeader_Nil
        hintsWithHeader_userFailureHints_trigger triggerHints_def Let_def message_def)
  have l: "hintsWithHeader ''Exit Trigger Task Role:'' (hints ?bar) =
             (if truthy role
              then [HintItem ''task-role'' ''Exit Trigger Task Role:'' [Expr role]]
              else [])"
    by (simp add: hintsWithHeader_append hintsWithHeader_Cons hintsWithHeader_Nil
        hintsWithHeader_userFailureHints_trigger triggerHints_def Let_def role_def)
  have i: "hintsWithHeader ''Exit Trigger Task Index:'' (hints ?bar) =
             (if idx = Undefined \<or> idx = Null then []
              else [HintItem ''container-id'' ''Exit Trigger Task Index:'' [Expr idx]])"
    unfolding n [symmetric]
    by (simp add: hintsWithHeader_append hintsWithHeader_Cons hintsWithHeader_Nil
        hintsWithHeader_userFailureHints_trigger triggerHints_def Let_def idx_def)
  from r m l i show ?thesis by blast
qed

theorem exit_trigger_hints_witness:
  "(JStr ''Failed'' = JStr ''Failed'' \<or> JStr ''Failed'' = JStr ''Stopped'') \<and>
   \<not> isNil (getProp job_trigger_index_zero ''jobStatus'') \<and>
   noPathKey job_trigger_index_zero \<and>
   solutionWellFormed (getProp job_trigger_index_zero ''jobStatus'') \<and>
   atPath (getProp job_trigger_index_zero ''jobStatus'') [''appExitSpec'', ''type''] = JStr ''USER_FAILURE'' \<and>
   (\<exists>bar. renderHintMessage (\<lambda>jobInfo. JStr ''Failed'') (\<lambda>v. None)
            (summaryOf job_trigger_index_zero) = Inr (Some bar) \<and>
          hintsWithHeader ''Exit Trigger Message:'' (hints bar) = [] \<and>
          hintsWithHeader ''Exit Trigger Task Role:'' (hints bar) =
            [HintItem ''task-role'' ''Exit Trigger Task Role:'' [Expr (JStr ''worker'')]] \<and>
          hintsWithHeader ''Exit Trigger Task Index:'' (hints bar) =
            [HintItem ''container-id'' ''Exit Trigger Task Index:'' [Expr (JNum 0)]])"
  using exit_trigger_hints
    [where getHumanizedJobStateString = "\<lambda>jobInfo. JStr ''Failed''"
       and coerce = "\<lambda>v. None" and this = "summaryOf job_trigger_index_zero"]
  by (auto simp add: job_trigger_index_zero_def input_simps solutionWellFormed_def atPath.simps)

text \<open>
  C7. For a Waiting job whose \<open>jobInfo\<close> has no property named by one of the dotted paths:
  when \<open>retryDetails.resource >= 3\<close> the result is the warning bar with the "Conflict Count"
  hint showing \<open>retryDetails.resource\<close> and the fixed "Resolution" hint, which asks to adjust
  the resource requirement in the job config (a link that opens it) or to wait; otherwise the
  result is nothing. For a number \<open>n\<close> the test is \<open>3 \<le> n\<close>, and it fails when the field is
  absent or \<open>null\<close>.
\<close>

theorem waiting_hint:
  fixes getHumanizedJobStateString coerce this
  defines "jobInfo \<equiv> prop_jobInfo (this_props this)"
  defines "resourceRetries \<equiv> atPath jobInfo [''jobStatus'', ''retryDetails'', ''resource'']"
  assumes st: "getHumanizedJobStateString jobInfo = JStr ''Waiting''"
    and np: "noPathKey jobInfo"
  shows "renderHintMessage getHumanizedJobStateString coerce this =
           (if js_ge coerce resourceRetries 3
            then Inr (Some (MessageBar MessageBarType_warning
                   [Div None None
                      [HintItem ''conflict-retry-count'' ''Conflict Count:''
                         [Expr resourceRetries],
                       HintItem ''resolution'' ''Resolution:''
                         [Div None None
                            [Text ''Please adjust the resource requirement in your '',
                             Link showJobConfig [Text ''job config''],
                             Text '', or wait till other jobs release more resources back to the system.'']]]]))
            else Inr None) \<and>
         js_ge coerce resourceRetries 3 =
           (case resourceRetries of
              JNum n \<Rightarrow> 3 \<le> n
            | Undefined \<Rightarrow> False
            | Null \<Rightarrow> False
            | JBool b \<Rightarrow> False
            | v \<Rightarrow> (case coerce v of None \<Rightarrow> False | Some n \<Rightarrow> 3 \<le> n))"
proof -
  let ?bar = "MessageBar MessageBarType_warning
                   [Div None None
                      [HintItem ''conflict-retry-count'' ''Conflict Count:''
                         [Expr resourceRetries],
                       HintItem ''resolution'' ''Resolution:''
                         [Div None None
                            [Text ''Please adjust the resource requirement in your '',
                             Link showJobConfig [Text ''job config''],
                             Text '', or wait till other jobs release more resources back to the system.'']]]]"
  have g: "get jobInfo ''jobStatus.retryDetails.resource'' = resourceRetries"
    unfolding resourceRetries_def using get_paths(7) [OF np] .
  have f: "\<not> truthy jobInfo \<Longrightarrow> resourceRetries = Undefined"
    unfolding resourceRetries_def by (cases jobInfo) (simp_all add: atPath.simps)
  have u: "js_ge coerce Undefined 3 = False"
    by (simp add: js_ge_def)
  have a: "renderHintMessage getHumanizedJobStateString coerce this =
           (if js_ge coerce resourceRetries 3 then Inr (Some ?bar) else Inr None)"
  proof (cases "truthy jobInfo")
    case True
    then show ?thesis
      using st
      by (simp add: renderHintMessage_def Let_def jobInfo_def [symmetric] g)
  next
    case False
    then show ?thesis
      using f u by (simp add: renderHintMessage_def Let_def jobInfo_def [symmetric])
  qed
  have b: "js_ge coerce resourceRetries 3 =
           (case resourceRetries of
              JNum n \<Rightarrow> 3 \<le> n
            | Undefined \<Rightarrow> False
            | Null \<Rightarrow> False
            | JBool b \<Rightarrow> False
            | v \<Rightarrow> (case coerce v of None \<Rightarrow> False | Some n \<Rightarrow> 3 \<le> n))"
    by (cases resourceRetries) (simp_all add: js_ge_def)
  from a b show ?thesis by (rule conjI)
qed

theorem waiting_hint_witness:
  "noPathKey (job_waiting 3) \<and> noPathKey (job_waiting 2) \<and>
   noPathKey (JObj [(''jobStatus'', JObj [])]) \<and>
   renderHintMessage (\<lambda>jobInfo. JStr ''Waiting'') (\<lambda>v. None) (summaryOf (job_waiting 3)) =
     Inr (Some (MessageBar MessageBarType_warning
       [Div None None
          [HintItem ''conflict-retry-count'' ''Conflict Count:'' [Expr (JNum 3)],
           HintItem ''resolution'' ''Resolution:''
             [Div None None
                [Text ''Please adjust the resource requirement in your '',
                 Link showJobConfig [Text ''job config''],
                 Text '', or wait till other jobs release more resources back to the system.'']]]])) \<and>
   renderHintMessage (\<lambda>jobInfo. JStr ''Waiting'') (\<lambda>v. None) (summaryOf (job_waiting 2)) =
     Inr None \<and>
   renderHintMessage (\<lambda>jobInfo. JStr ''Waiting'') (\<lambda>v. None)
     (summaryOf (JObj [(''jobStatus'', JObj [])])) = Inr None"
  using waiting_hint
    [where getHumanizedJobStateString = "\<lambda>jobInfo. JStr ''Waiting''"
       and coerce = "\<lambda>v. None" and this = "summaryOf (job_waiting 3)"]
    waiting_hint
    [where getHumanizedJobStateString = "\<lambda>jobInfo. JStr ''Waiting''"
       and coerce = "\<lambda>v. None" and this = "summaryOf (job_waiting 2)"]
    waiting_hint
    [where getHumanizedJobStateString = "\<lambda>jobInfo. JStr ''Waiting''"
       and coerce = "\<lambda>v. None" and this = "summaryOf (JObj [(''jobStatus'', JObj [])])"]
  by (simp add: job_waiting_def input_simps atPath.simps)

text \<open>
  C8. When \<open>jobInfo\<close>, if there is one, has a \<open>jobStatus\<close> and the shape of the data model (no
  property of \<open>jobInfo\<close> named by one of the dotted paths, \<open>appExitSpec.solution\<close> an array when
  it is truthy), neither \<open>renderHintMessage\<close> nor \<open>getUserFailureHintItems\<close> throws, whichever
  other fields are absent.
\<close>

theorem renderHintMessage_total:
  fixes getHumanizedJobStateString coerce this
  defines "jobInfo \<equiv> prop_jobInfo (this_props this)"
  defines "jobStatus \<equiv> getProp jobInfo ''jobStatus''"
  assumes js: "truthy jobInfo \<longrightarrow> \<not> isNil jobStatus"
    and np: "noPathKey jobInfo"
    and wf: "solutionWellFormed jobStatus"
  shows "(\<exists>result. renderHintMessage getHumanizedJobStateString coerce this = Inr result) \<and>
         (\<not> isNil jobStatus \<longrightarrow>
            (\<exists>items. getUserFailureHintItems coerce jobInfo = Inr items))"
proof -
  define state where "state = getHumanizedJobStateString jobInfo"
  have u: "\<not> isNil jobStatus \<longrightarrow> (\<exists>items. getUserFailureHintItems coerce jobInfo = Inr items)"
    using getUserFailureHintItems_eq [of jobInfo coerce] np wf
    unfolding jobStatus_def by blast
  have r: "\<exists>result. renderHintMessage getHumanizedJobStateString coerce this = Inr result"
  proof (cases "truthy jobInfo")
    case False
    then show ?thesis
      by (simp add: renderHintMessage_def Let_def jobInfo_def [symmetric])
  next
    case True
    with js have nn: "\<not> isNil jobStatus" by blast
    show ?thesis
    proof (cases "state = JStr ''Failed'' \<or> state = JStr ''Stopped''")
      case True
      then show ?thesis
        using renderHintMessage_exit [of getHumanizedJobStateString this coerce] nn np wf
        unfolding jobInfo_def jobStatus_def state_def by simp
    next
      case False
      then show ?thesis
        by (simp add: renderHintMessage_def Let_def jobInfo_def [symmetric]
            state_def [symmetric])
    qed
  qed
  from r u show ?thesis by (rule conjI)
qed

theorem renderHintMessage_total_witness:
  "\<not> isNil (getProp job_bare_user_failure ''jobStatus'') \<and>
   noPathKey job_bare_user_failure \<and>
   solutionWellFormed (getProp job_bare_user_failure ''jobStatus'') \<and>
   (\<exists>result. renderHintMessage (\<lambda>jobInfo. JStr ''Failed'') (\<lambda>v. None)
               (summaryOf job_bare_user_failure) = Inr result) \<and>
   (\<exists>items. getUserFailureHintItems (\<lambda>v. None) job_bare_user_failure = Inr items)"
  using renderHintMessage_total
    [where getHumanizedJobStateString = "\<lambda>jobInfo. JStr ''Failed''"
       and coerce = "\<lambda>v. None" and this = "summaryOf job_bare_user_failure"]
  by (simp add: job_bare_user_failure_def input_simps solutionWellFormed_def atPath.simps)

text \<open>
  C10. The Stop button is enabled exactly when the humanized state is Running or Waiting.
\<close>

theorem stop_button_enabled:
  "(\<not> stopDisabled getHumanizedJobStateString this) =
     (getHumanizedJobStateString (prop_jobInfo (this_props this)) = JStr ''Running'' \<or>
      getHumanizedJobStateString (prop_jobInfo (this_props this)) = JStr ''Waiting'')"
  by (auto simp add: stopDisabled_def js_includes_def StoppableStatus_def)

theorem stop_button_enabled_witness:
  "\<not> stopDisabled (\<lambda>jobInfo. JStr ''Running'') (summaryOf job_running) \<and>
   \<not> stopDisabled (\<lambda>jobInfo. JStr ''Waiting'') (summaryOf (job_waiting 3)) \<and>
   stopDisabled (\<lambda>jobInfo. JStr ''Failed'') (summaryOf job_launcher) \<and>
   stopDisabled (\<lambda>jobInfo. JStr ''Stopped'') (summaryOf job_platform_failure) \<and>
   stopDisabled (\<lambda>jobInfo. JStr ''Succeeded'') (summaryOf job_running)"
  using stop_button_enabled [of "\<lambda>jobInfo. JStr ''Running''" "summaryOf job_running"]
    stop_button_enabled [of "\<lambda>jobInfo. JStr ''Waiting''" "summaryOf (job_waiting 3)"]
    stop_button_enabled [of "\<lambda>jobInfo. JStr ''Failed''" "summaryOf job_launcher"]
    stop_button_enabled [of "\<lambda>jobInfo. JStr ''Stopped''" "summaryOf job_platform_failure"]
    stop_button_enabled [of "\<lambda>jobInfo. JStr ''Succeeded''" "summaryOf job_running"]
  by simp

end
